theory Spec2Isabelle
  imports Complex_Main
begin

section \<open>Exceptions\<close>

text \<open>
  Exceptions are values. Only instances of \<^verbatim>\<open>Exception\<close> are represented, which is what
  every \<^verbatim>\<open>except Exception\<close> of the source catches.
\<close>

datatype exn =
  KeyError string
  | ZeroDivisionError
  | UnboundLocalError
  | OverflowError
  | NameError string
  | RedisError string
  | Failure string

section \<open>Node swarm: health records and best-node selection\<close>

text \<open>
  \<^verbatim>\<open>TransactionMonitor.node_swarm\<close> is a dictionary with a \<^verbatim>\<open>'primary'\<close> node and a list of
  \<^verbatim>\<open>'fast_nodes'\<close>. Every node dictionary carries \<^verbatim>\<open>url\<close>, \<^verbatim>\<open>connections\<close>, \<^verbatim>\<open>last_block\<close> and
  \<^verbatim>\<open>mempool_size\<close>; only a fast node carries \<^verbatim>\<open>latency\<close> (seconds, measured as a difference of
  \<^verbatim>\<open>time.time()\<close> readings). The counters are Python integers, unbounded. Python's floats
  are modelled as rationals: the scores below are sums of three products at most, so the
  rational value and the float differ by a relative error of a few units in the last
  place, and no statement below depends on a comparison that close.
\<close>

record node =
  url :: string
  connections :: int
  last_block :: int
  mempool_size :: int

record fast_node = node +
  latency :: rat

record node_swarm =
  primary :: node
  fast_nodes :: "fast_node list"

text \<open>The part of the monitor's state that routing reads and writes.\<close>

record monitor =
  swarm :: node_swarm
  best_node :: "string option"

text \<open>
  A score multiplies an integer counter by a float, which converts the integer to a float
  first. The conversion rounds to the nearest double and raises \<^verbatim>\<open>OverflowError\<close> when the
  result would be \<open>2 ^ 1024\<close> or more, that is for an integer of magnitude at least
  \<open>2 ^ 1024 - 2 ^ 970\<close>. Products and sums of the floats obtained raise nothing.
\<close>

definition fits_float :: "int \<Rightarrow> bool" where
  "fits_float n \<longleftrightarrow> \<bar>n\<bar> < 2 ^ 1024 - 2 ^ 970"

text \<open>
  \<^verbatim>\<open>best_score = float('-inf')\<close>: the running best score is \<open>None\<close> while it is minus
  infinity, and \<^verbatim>\<open>score > best_score\<close> is then true for every score.
\<close>

fun exceeds :: "rat \<Rightarrow> rat option \<Rightarrow> bool" where
  "exceeds x None = True"
| "exceeds x (Some b) = (b < x)"

definition primary_score :: "node \<Rightarrow> rat" where
  "primary_score p = of_int (connections p) * (4 / 10) + of_int (mempool_size p) * (6 / 10)"

definition node_score :: "fast_node \<Rightarrow> rat" where
  "node_score n =
     of_int (connections n) * (3 / 10) + of_int (mempool_size n) * (5 / 10)
       + (1 - latency n) * (2 / 10)"

text \<open>
  The loop \<^verbatim>\<open>for node in self.node_swarm['fast_nodes']\<close> of \<^verbatim>\<open>_update_best_node\<close>, threading
  the pair \<^verbatim>\<open>(best_score, best_node)\<close>. A node is scored only if it reports a connection
  and its latency is below one second; scoring it raises when one of its counters does
  not fit a float, which ends the loop.
\<close>

fun score_fast_nodes ::
  "fast_node list \<Rightarrow> rat option \<times> string option \<Rightarrow> exn + rat option \<times> string option" where
  "score_fast_nodes [] acc = Inr acc"
| "score_fast_nodes (n # ns) (best_score, best) =
     (if 0 < connections n \<and> latency n < 1 then
        (if fits_float (connections n) \<and> fits_float (mempool_size n) then
           (if exceeds (node_score n) best_score
            then score_fast_nodes ns (Some (node_score n), Some (url n))
            else score_fast_nodes ns (best_score, best))
         else Inl OverflowError)
      else score_fast_nodes ns (best_score, best))"

text \<open>The primary is scored first, from \<^verbatim>\<open>(float('-inf'), None)\<close>.\<close>

definition score_primary :: "node \<Rightarrow> exn + rat option \<times> string option" where
  "score_primary p =
     (if 0 < connections p then
        (if fits_float (connections p) \<and> fits_float (mempool_size p) then
           (if exceeds (primary_score p) None then Inr (Some (primary_score p), Some (url p))
            else Inr (None, None))
         else Inl OverflowError)
      else Inr (None, None))"

text \<open>
  The body of the \<^verbatim>\<open>try\<close> of \<^verbatim>\<open>_update_best_node\<close> up to the assignment: the score and the
  URL it would assign, or the exception raised on the way.
\<close>

definition select_best :: "node_swarm \<Rightarrow> exn + rat option \<times> string option" where
  "select_best sw =
     (case score_primary (primary sw) of
        Inl e \<Rightarrow> Inl e
      | Inr acc \<Rightarrow> score_fast_nodes (fast_nodes sw) acc)"

text \<open>
  \<^verbatim>\<open>_update_best_node\<close>: the assignment \<^verbatim>\<open>self.best_node = best_node\<close> is the last statement
  of the \<^verbatim>\<open>try\<close> that matters; the \<^verbatim>\<open>except\<close> clause only logs, so an exception leaves
  \<^verbatim>\<open>best_node\<close> as it was.
\<close>

definition update_best_node :: "monitor \<Rightarrow> monitor" where
  "update_best_node s =
     (case select_best (swarm s) of
        Inl e \<Rightarrow> s
      | Inr (best_score, best) \<Rightarrow> s\<lparr>best_node := best\<rparr>)"

text \<open>
  The scenario of the specification: a primary with 5 connections and a backlog of 100, a
  secondary A (10 connections, backlog 50, latency 1500 ms) and a secondary B (8
  connections, backlog 80, latency 200 ms).
\<close>

definition scenario_primary :: node where
  "scenario_primary =
     \<lparr>url = ''http://primary:8332'', connections = 5, last_block = 0, mempool_size = 100\<rparr>"

definition scenario_A :: fast_node where
  "scenario_A =
     \<lparr>url = ''http://a:8332'', connections = 10, last_block = 0, mempool_size = 50,
      latency = 3 / 2\<rparr>"

definition scenario_B :: fast_node where
  "scenario_B =
     \<lparr>url = ''http://b:8332'', connections = 8, last_block = 0, mempool_size = 80,
      latency = 1 / 5\<rparr>"

definition scenario :: monitor where
  "scenario =
     \<lparr>swarm = \<lparr>primary = scenario_primary, fast_nodes = [scenario_A, scenario_B]\<rparr>,
      best_node = None\<rparr>"

text \<open>
  A swarm whose primary reports no connections and whose only fast node is too slow, with a
  stale \<^verbatim>\<open>best_node\<close> left from an earlier selection.
\<close>

definition unhealthy_primary :: monitor where
  "unhealthy_primary =
     \<lparr>swarm = \<lparr>primary = scenario_primary\<lparr>connections := 0\<rparr>, fast_nodes = [scenario_A]\<rparr>,
      best_node = Some ''http://a:8332''\<rparr>"


text \<open>
  The swarm built from \<^verbatim>\<open>RPC_BTC_URLS=",http://b:8332"\<close>: the first entry of the split is the
  empty string, which becomes the primary's URL; the primary has never answered, the fast
  node B has.
\<close>

definition empty_primary :: monitor where
  "empty_primary =
     \<lparr>swarm = \<lparr>primary = \<lparr>url = '''', connections = 0, last_block = 0, mempool_size = 0\<rparr>,
               fast_nodes = [scenario_B]\<rparr>,
      best_node = None\<rparr>"

section \<open>RPC routing with fallback\<close>

text \<open>
  \<^verbatim>\<open>url = node_url or self.best_node or self.node_swarm['primary']['url']\<close>: Python's
  \<^verbatim>\<open>or\<close> yields its first truthy operand, and both \<^verbatim>\<open>None\<close> and the empty string are
  falsy. The last operand is returned as it is.
\<close>

definition rpc_url :: "monitor \<Rightarrow> string option \<Rightarrow> string" where
  "rpc_url s node_url =
     (case node_url of
        Some u \<Rightarrow> if u \<noteq> [] then u
                  else (case best_node s of
                          Some b \<Rightarrow> if b \<noteq> [] then b else url (primary (swarm s))
                        | None \<Rightarrow> url (primary (swarm s)))
      | None \<Rightarrow> (case best_node s of
                   Some b \<Rightarrow> if b \<noteq> [] then b else url (primary (swarm s))
                 | None \<Rightarrow> url (primary (swarm s))))"

text \<open>
  \<^verbatim>\<open>btc_rpc\<close>. The network is a parameter \<open>post\<close>: the outcome of the \<open>k\<close>-th request issued,
  sent to a given URL, is either an exception (\<^verbatim>\<open>requests.post\<close> or \<^verbatim>\<open>response.json()\<close>
  raised) or the decoded response. The function returns what the call returns or raises,
  together with the URLs it has posted to, in order. The recursive call of the source is
  the fallback \<^verbatim>\<open>self.btc_rpc(method, params, primary_url)\<close>, whose third argument goes
  through the same \<^verbatim>\<open>or\<close> chain. The source puts no bound on the depth of the recursion
  (the interpreter's recursion limit is not modelled), so the model is a partial function
  whose value \<open>None\<close> stands for a call that never returns.
\<close>

partial_function (option) btc_rpc ::
  "(nat \<Rightarrow> string \<Rightarrow> 'e + 'r) \<Rightarrow> monitor \<Rightarrow> nat \<Rightarrow> string list \<Rightarrow> string option
     \<Rightarrow> (('e + 'r) \<times> string list) option" where
  "btc_rpc post s k sent node_url =
     (let u = rpc_url s node_url in
      case post k u of
        Inr response \<Rightarrow> Some (Inr response, sent @ [u])
      | Inl e \<Rightarrow>
          if u \<noteq> url (primary (swarm s))
          then btc_rpc post s (Suc k) (sent @ [u]) (Some (url (primary (swarm s))))
          else Some (Inl e, sent @ [u]))"

text \<open>A network on which every request fails, with an error naming the URL.\<close>

definition always_failing :: "nat \<Rightarrow> string \<Rightarrow> string + unit" where
  "always_failing k u = Inl (''timeout '' @ u)"

text \<open>A network on which the first two requests time out and the third is answered.\<close>

definition fails_twice :: "nat \<Rightarrow> string \<Rightarrow> string + string" where
  "fails_twice k u = (if k < 2 then Inl (''timeout '' @ u) else Inr ''ok'')"


section \<open>Performance metrics, opportunities and the worker\<close>


text \<open>
  \<^verbatim>\<open>performance_metrics\<close> as built in \<^verbatim>\<open>__init__\<close>. \<^verbatim>\<open>Decimal\<close> amounts and float durations
  are rationals; \<^verbatim>\<open>opportunity_types\<close> is a dictionary from the category name to a
  dictionary with a count and a profit, kept as an association list in insertion order.
\<close>

record cat_stats =
  count :: int
  profit :: rat

record performance_metrics =
  opportunities_found :: int
  total_profit :: rat
  last_opportunity_time :: rat
  analysis_latency :: "rat list"
  success_rate :: "int list"
  target_multiplier :: rat
  opportunity_types :: "(string \<times> cat_stats) list"

definition categories :: "string list" where
  "categories =
     [''arbitrage'', ''liquidation'', ''sandwich'', ''frontrun'', ''backrun'',
      ''just_in_time'', ''time_bandit'']"

definition init_metrics :: "rat \<Rightarrow> performance_metrics" where
  "init_metrics now =
     \<lparr>opportunities_found = 0, total_profit = 0, last_opportunity_time = now,
      analysis_latency = [], success_rate = [], target_multiplier = 2,
      opportunity_types = map (\<lambda>c. (c, \<lparr>count = 0, profit = 0\<rparr>)) categories\<rparr>"

text \<open>Assignment to a dictionary key: an existing key keeps its position.\<close>

fun dict_set :: "'k \<Rightarrow> 'v \<Rightarrow> ('k \<times> 'v) list \<Rightarrow> ('k \<times> 'v) list" where
  "dict_set k v [] = [(k, v)]"
| "dict_set k v ((k', v') # kvs) =
     (if k = k' then (k, v) # kvs else (k', v') # dict_set k v kvs)"

text \<open>
  An opportunity dictionary, as the analysers build it (its \<^verbatim>\<open>details\<close> mapping is never read
  by the code modelled here and is left out). The key \<^verbatim>\<open>'type'\<close> is the field \<open>opp_type\<close>.
\<close>

record opportunity =
  opp_type :: string
  potential_profit :: rat
  gas_cost :: rat
  timestamp :: rat

text \<open>
  The methods \<^verbatim>\<open>_execute_arbitrage\<close>, ..., \<^verbatim>\<open>_execute_time_bandit\<close> that
  \<^verbatim>\<open>_execute_opportunity\<close> dispatches to are defined nowhere in the repository. They are the
  parameter \<open>execute\<close>, indexed by the category the method is named after: a handler either
  raises or returns a profit, and does not touch the metrics itself. The \<^verbatim>\<open>if\<close>/\<^verbatim>\<open>elif\<close> chain has no \<^verbatim>\<open>else\<close>, so a type outside
  it would leave \<^verbatim>\<open>profit\<close> unbound.
\<close>

definition dispatch :: "(string \<Rightarrow> opportunity \<Rightarrow> exn + rat) \<Rightarrow> opportunity \<Rightarrow> exn + rat" where
  "dispatch execute opp =
     (if opp_type opp = ''arbitrage'' then execute ''arbitrage'' opp
      else if opp_type opp = ''liquidation'' then execute ''liquidation'' opp
      else if opp_type opp = ''sandwich'' then execute ''sandwich'' opp
      else if opp_type opp = ''frontrun'' then execute ''frontrun'' opp
      else if opp_type opp = ''backrun'' then execute ''backrun'' opp
      else if opp_type opp = ''just_in_time'' then execute ''just_in_time'' opp
      else if opp_type opp = ''time_bandit'' then execute ''time_bandit'' opp
      else Inl UnboundLocalError)"


text \<open>
  The amounts are \<^verbatim>\<open>Decimal\<close> values, each of them a rational number. \<^verbatim>\<open>Decimal\<close> addition
  is not exact: it rounds the sum to the precision of the context (28 significant digits
  unless changed). The addition is therefore a parameter \<open>dec_add\<close> of everything that
  adds amounts, and the statements below hold for every such operation; on amounts whose
  sum has at most 28 digits it is the exact sum, which is what the concrete runs below
  use. Counts are Python integers, added exactly.
\<close>

definition exact_add :: "rat \<Rightarrow> rat \<Rightarrow> rat" where
  "exact_add x y = x + y"

text \<open>
  \<^verbatim>\<open>_execute_opportunity\<close>. \<open>elapsed\<close> is the value of \<^verbatim>\<open>time.time() - start_time\<close> at the end.
  The result is the metrics after the call and the exception its \<^verbatim>\<open>except\<close> clause logged,
  if any; the method itself never raises. The count of the category is incremented before
  the handler runs, so it stays incremented when the handler raises; a missing category
  raises \<^verbatim>\<open>KeyError\<close> before anything is changed.
\<close>

definition execute_opportunity ::
  "(rat \<Rightarrow> rat \<Rightarrow> rat) \<Rightarrow> (string \<Rightarrow> opportunity \<Rightarrow> exn + rat) \<Rightarrow> rat \<Rightarrow> opportunity
     \<Rightarrow> performance_metrics \<Rightarrow> performance_metrics \<times> exn option" where
  "execute_opportunity dec_add execute elapsed opp m =
     (case map_of (opportunity_types m) (opp_type opp) of
        None \<Rightarrow> (m, Some (KeyError (opp_type opp)))
      | Some cs \<Rightarrow>
          (let counted = cs\<lparr>count := count cs + 1\<rparr>;
               m1 = m\<lparr>opportunity_types := dict_set (opp_type opp) counted (opportunity_types m)\<rparr>
           in case dispatch execute opp of
                Inl e \<Rightarrow> (m1, Some e)
              | Inr p \<Rightarrow>
                  (let m2 =
                     (if 0 < p then
                        m1\<lparr>opportunity_types :=
                              dict_set (opp_type opp)
                                (counted\<lparr>profit := dec_add (profit counted) p\<rparr>)
                                (opportunity_types m1),
                            total_profit := dec_add (total_profit m1) p,
                            success_rate := success_rate m1 @ [1]\<rparr>
                      else m1\<lparr>success_rate := success_rate m1 @ [0]\<rparr>)
                   in (m2\<lparr>analysis_latency := analysis_latency m2 @ [elapsed]\<rparr>, None))))"

text \<open>
  \<^verbatim>\<open>_process_opportunity_queue\<close>, the body of one worker thread, run over the successive
  outcomes of \<^verbatim>\<open>self.opportunity_queue.get(timeout=1)\<close>: an opportunity (with the time its
  execution then takes), or a timeout, on which \<^verbatim>\<open>get\<close> raises \<^verbatim>\<open>queue.Empty\<close>. The clause
  \<^verbatim>\<open>except Empty\<close> names an identifier the module never binds (it imports only
  \<^verbatim>\<open>from queue import Queue\<close>), so matching the exception raises \<^verbatim>\<open>NameError\<close>, which no clause
  of the same \<^verbatim>\<open>try\<close> catches: it leaves \<^verbatim>\<open>while True\<close> and the thread ends. The worker
  records it in \<open>ended\<close> and takes no further outcome. An opportunity dictionary is
  non-empty, so \<^verbatim>\<open>if opportunity\<close> holds for every item. Nothing else in the \<^verbatim>\<open>try\<close> body can
  raise, \<^verbatim>\<open>_execute_opportunity\<close> catching its own exceptions; what a worker logs are the
  exceptions logged inside \<^verbatim>\<open>_execute_opportunity\<close>. The function gives the worker's state
  after a finite run of outcomes; \<open>ended = None\<close> is a worker still in its loop.
\<close>

datatype queue_event = Got opportunity rat | Empty

record worker =
  metrics :: performance_metrics
  logged :: "exn list"
  tasks_done :: nat
  ended :: "exn option"

fun process_opportunity_queue ::
  "(rat \<Rightarrow> rat \<Rightarrow> rat) \<Rightarrow> (string \<Rightarrow> opportunity \<Rightarrow> exn + rat) \<Rightarrow> queue_event list
     \<Rightarrow> worker \<Rightarrow> worker" where
  "process_opportunity_queue dec_add execute [] w = w"
| "process_opportunity_queue dec_add execute (Got opp elapsed # evs) w =
     (case execute_opportunity dec_add execute elapsed opp (metrics w) of
        (m, err) \<Rightarrow>
          process_opportunity_queue dec_add execute evs
            (w\<lparr>metrics := m,
               logged := logged w @ (case err of None \<Rightarrow> [] | Some e \<Rightarrow> [e]),
               tasks_done := Suc (tasks_done w)\<rparr>))"
| "process_opportunity_queue dec_add execute (Empty # evs) w =
     w\<lparr>ended := Some (NameError ''Empty'')\<rparr>"








text \<open>
  \<^verbatim>\<open>_update_performance_metrics\<close>, the flush. \<open>now\<close> is \<^verbatim>\<open>time.time()\<close> and \<open>hset\<close> is the Redis
  write, which stores the mapping or raises. The result is the metrics after the call,
  the mapping stored (if any) and the exception logged by the \<^verbatim>\<open>except\<close> clause (if any).
  The two buffers are reset after the write, inside the same \<^verbatim>\<open>try\<close>: an exception before
  that point leaves them as they are.
\<close>

record published =
  pub_opportunities_found :: int
  pub_total_profit :: rat
  avg_latency :: rat
  pub_success_rate :: rat
  opportunities_per_hour :: rat
  last_update :: rat

record flush_result =
  flushed :: performance_metrics
  stored :: "published option"
  flush_error :: "exn option"

definition update_performance_metrics ::
  "rat \<Rightarrow> (published \<Rightarrow> exn option) \<Rightarrow> performance_metrics \<Rightarrow> flush_result" where
  "update_performance_metrics now hset m =
     (let time_window = now - last_opportunity_time m in
      if 0 < length (analysis_latency m) then
        if length (success_rate m) = 0 then
          \<lparr>flushed = m, stored = None, flush_error = Some ZeroDivisionError\<rparr>
        else if time_window / 3600 = 0 then
          \<lparr>flushed = m, stored = None, flush_error = Some ZeroDivisionError\<rparr>
        else
          (let mapping =
             \<lparr>pub_opportunities_found = opportunities_found m,
              pub_total_profit = total_profit m,
              avg_latency = sum_list (analysis_latency m) / of_nat (length (analysis_latency m)),
              pub_success_rate =
                of_int (sum_list (success_rate m)) / of_nat (length (success_rate m)),
              opportunities_per_hour = of_int (opportunities_found m) / (time_window / 3600),
              last_update = now\<rparr>
           in case hset mapping of
                Some e \<Rightarrow> \<lparr>flushed = m, stored = None, flush_error = Some e\<rparr>
              | None \<Rightarrow>
                  \<lparr>flushed = m\<lparr>analysis_latency := [], success_rate := []\<rparr>,
                   stored = Some mapping, flush_error = None\<rparr>)
      else \<lparr>flushed = m, stored = None, flush_error = None\<rparr>)"

text \<open>
  Metrics holding one latency sample and one success sample, and a Redis that is down.
\<close>

definition one_sample :: performance_metrics where
  "one_sample = (init_metrics 0)\<lparr>analysis_latency := [1 / 10], success_rate := [1]\<rparr>"

definition redis_down :: "published \<Rightarrow> exn option" where
  "redis_down mapping = Some (RedisError ''connection refused'')"

definition redis_up :: "published \<Rightarrow> exn option" where
  "redis_up mapping = None"




text \<open>
  Two arbitrage opportunities, a handler that raises on the first (the one stamped 1) and
  returns a profit of 2 on any other, and a fresh worker.
\<close>

definition item1 :: opportunity where
  "item1 = \<lparr>opp_type = ''arbitrage'', potential_profit = 1, gas_cost = 0, timestamp = 1\<rparr>"

definition item2 :: opportunity where
  "item2 = \<lparr>opp_type = ''arbitrage'', potential_profit = 1, gas_cost = 0, timestamp = 2\<rparr>"

definition flaky :: "string \<Rightarrow> opportunity \<Rightarrow> exn + rat" where
  "flaky category opp = (if timestamp opp = 1 then Inl (Failure ''handler failed'') else Inr 2)"

definition fresh_worker :: worker where
  "fresh_worker = \<lparr>metrics = init_metrics 0, logged = [], tasks_done = 0, ended = None\<rparr>"


section \<open>The monitoring loop\<close>

text \<open>
  \<^verbatim>\<open>start_monitoring\<close>: \<^verbatim>\<open>while True\<close> around one \<^verbatim>\<open>try\<close>. The body of an iteration (health
  update, the monitoring and analysis futures, metrics and progress report, then
  \<^verbatim>\<open>time.sleep(self.monitoring_interval)\<close> with an interval of 0.05 s) either runs to its end
  or raises an exception. The \<^verbatim>\<open>except Exception\<close> clause logs the error, pushes it to the
  Redis list \<^verbatim>\<open>faithswarm:errors\<close> and sleeps 0.1 s; the push is the second component of an
  iteration's outcome, \<open>None\<close> when it succeeds and the exception it raises otherwise.
  Nothing encloses the clause, so an exception raised by the push leaves the loop and
  \<^verbatim>\<open>start_monitoring\<close>. The function runs the loop over a finite run of iterations; \<open>Running\<close>
  is a loop still going, \<open>Terminated\<close> one that an exception has left.
\<close>

datatype tick = Completed | Raised exn

record control_loop =
  errors_logged :: "exn list"
  errors_pushed :: "exn list"
  slept :: "rat list"

datatype loop_result = Running control_loop | Terminated exn control_loop

fun start_monitoring :: "(tick \<times> exn option) list \<Rightarrow> control_loop \<Rightarrow> loop_result" where
  "start_monitoring [] st = Running st"
| "start_monitoring ((Completed, rpush) # ticks) st =
     start_monitoring ticks (st\<lparr>slept := slept st @ [1 / 20]\<rparr>)"
| "start_monitoring ((Raised e, None) # ticks) st =
     start_monitoring ticks
       (st\<lparr>errors_logged := errors_logged st @ [e],
           errors_pushed := errors_pushed st @ [e],
           slept := slept st @ [1 / 10]\<rparr>)"
| "start_monitoring ((Raised e, Some e') # ticks) st =
     Terminated e' (st\<lparr>errors_logged := errors_logged st @ [e]\<rparr>)"

definition idle_loop :: control_loop where
  "idle_loop = \<lparr>errors_logged = [], errors_pushed = [], slept = []\<rparr>"

section \<open>Alert cooldown of the system monitor\<close>

text \<open>
  \<^verbatim>\<open>SystemMonitor.should_alert\<close> (\<^verbatim>\<open>monitor_errors.py\<close>), with \<^verbatim>\<open>time.time()\<close> as the parameter
  \<open>current_time\<close> and the dictionary \<^verbatim>\<open>last_alert_time\<close> as a map. The result is the answer
  and the dictionary after the call. \<open>run_alerts\<close> is a sequence of such calls on one monitor,
  each with its clock reading and issue type, as \<^verbatim>\<open>monitor_all\<close> makes them.
\<close>

definition alert_cooldown :: rat where
  "alert_cooldown = 300"

definition should_alert ::
  "rat \<Rightarrow> string \<Rightarrow> (string \<rightharpoonup> rat) \<Rightarrow> bool \<times> (string \<rightharpoonup> rat)" where
  "should_alert current_time issue_type last_alert_time =
     (let seen = (case last_alert_time issue_type of
                    None \<Rightarrow> last_alert_time(issue_type \<mapsto> 0)
                  | Some t \<Rightarrow> last_alert_time);
          last = (case last_alert_time issue_type of None \<Rightarrow> 0 | Some t \<Rightarrow> t)
      in if current_time - last > alert_cooldown
         then (True, seen(issue_type \<mapsto> current_time))
         else (False, seen))"

fun run_alerts :: "(rat \<times> string) list \<Rightarrow> (string \<rightharpoonup> rat) \<Rightarrow> bool list" where
  "run_alerts [] last_alert_time = []"
| "run_alerts ((current_time, issue_type) # calls) last_alert_time =
     (case should_alert current_time issue_type last_alert_time of
        (alert, last_alert_time') \<Rightarrow> alert # run_alerts calls last_alert_time')"

text \<open>Four calls: two issue types, the third call inside the cooldown of the first.\<close>

definition alert_calls :: "(rat \<times> string) list" where
  "alert_calls = [(1000, ''high_cpu''), (1100, ''redis_error''), (1200, ''high_cpu''),
                  (1400, ''high_cpu'')]"


section \<open>Properties of best-node selection\<close>

lemma fits_float_small: "\<bar>n\<bar> < 2 ^ 64 \<Longrightarrow> fits_float n"
  by (simp add: fits_float_def)

lemma score_fast_nodes_none_admitted:
  "\<forall>n \<in> set ns. 1 \<le> latency n \<Longrightarrow> score_fast_nodes ns acc = Inr acc"
proof (induction ns arbitrary: acc)
  case Nil
  show ?case by simp
next
  case (Cons n ns)
  obtain bs bn where acc: "acc = (bs, bn)" by (cases acc)
  from Cons.prems have "\<not> latency n < 1" by simp
  moreover from Cons have "score_fast_nodes ns (bs, bn) = Inr (bs, bn)" by simp
  ultimately show ?case by (simp add: acc)
qed

lemma score_fast_nodes_skips:
  "1 \<le> latency n \<Longrightarrow> score_fast_nodes (n # ns) acc = score_fast_nodes ns acc"
  by (cases acc) simp




text \<open>
  Claim C1, as the code has it. On the scenario of the specification the primary scores
  \<open>5 * 0.4 + 100 * 0.6 = 62\<close> and secondary B scores \<open>8 * 0.3 + 80 * 0.5 + 0.8 * 0.2 = 42.56\<close>.
  Secondary A is excluded by the latency bound: with its latency of 1.5 s the loop passes
  over it, whatever best score it has reached and whatever nodes follow, while the same
  node with a latency of 0.5 s is scored and taken. The selection therefore stores the URL
  of the primary, not that of B.
\<close>

theorem scenario_selects_primary:
  "best_node (update_best_node scenario) = Some (url scenario_primary)
   \<and> (\<forall>ns acc. score_fast_nodes (scenario_A # ns) acc = score_fast_nodes ns acc)
   \<and> score_fast_nodes [scenario_A\<lparr>latency := 1 / 2\<rparr>] (None, None)
       = Inr (Some (281 / 10), Some (url scenario_A))
   \<and> node_score scenario_B = 1064 / 25 \<and> primary_score scenario_primary = 62"
proof -
  have "best_node (update_best_node scenario) = Some (url scenario_primary)"
    by (simp add: update_best_node_def select_best_def scenario_def score_primary_def
        primary_score_def node_score_def scenario_primary_def scenario_A_def scenario_B_def
        fits_float_small)
  moreover have "score_fast_nodes (scenario_A # ns) acc = score_fast_nodes ns acc" for ns acc
    by (rule score_fast_nodes_skips) (simp add: scenario_A_def)
  moreover have "score_fast_nodes [scenario_A\<lparr>latency := 1 / 2\<rparr>] (None, None)
      = Inr (Some (281 / 10), Some (url scenario_A))"
    by (simp add: scenario_A_def node_score_def fits_float_small)
  moreover have "node_score scenario_B = 1064 / 25" "primary_score scenario_primary = 62"
    by (simp_all add: node_score_def primary_score_def scenario_B_def scenario_primary_def)
  ultimately show ?thesis by simp
qed

text \<open>Claim C1 as stated (B becomes the best node) fails on the scenario.\<close>

theorem scenario_does_not_select_B:
  "best_node (update_best_node scenario) \<noteq> Some (url scenario_B)"
  by (simp add: update_best_node_def select_best_def scenario_def score_primary_def
      primary_score_def node_score_def scenario_primary_def scenario_A_def scenario_B_def
      fits_float_small)

text \<open>
  Claim C2 as stated: whenever no fast node has a latency below the bound, the best node is
  the primary, whatever the primary's health. It fails when the primary reports no
  connections: the guard \<^verbatim>\<open>if self.node_swarm['primary']['connections'] > 0\<close> leaves
  \<^verbatim>\<open>best_node\<close> at \<^verbatim>\<open>None\<close>.
\<close>

theorem fallback_to_primary_counterexample:
  "\<not> (\<forall>s. (\<forall>n \<in> set (fast_nodes (swarm s)). 1 \<le> latency n) \<longrightarrow>
          best_node (update_best_node s) = Some (url (primary (swarm s))))"
proof
  assume "\<forall>s. (\<forall>n \<in> set (fast_nodes (swarm s)). 1 \<le> latency n) \<longrightarrow>
            best_node (update_best_node s) = Some (url (primary (swarm s)))"
  then have "(\<forall>n \<in> set (fast_nodes (swarm unhealthy_primary)). 1 \<le> latency n) \<longrightarrow>
      best_node (update_best_node unhealthy_primary)
        = Some (url (primary (swarm unhealthy_primary)))"
    by (rule spec)
  then show False
    by (simp add: unhealthy_primary_def update_best_node_def select_best_def score_primary_def
        scenario_primary_def scenario_A_def)
qed

text \<open>
  Claim C2, amended. If no fast node has a latency below one second, then after
  \<^verbatim>\<open>_update_best_node\<close> the field \<^verbatim>\<open>best_node\<close> is \<^verbatim>\<open>None\<close> when the primary reports no
  connection, and the primary's URL when it reports one and its counters fit a float (when
  they do not, scoring raises and \<^verbatim>\<open>best_node\<close> is left as it was). Whenever the update has
  not raised, a \<^verbatim>\<open>btc_rpc\<close> call without an explicit target resolves to the primary's URL.
\<close>

theorem fallback_to_primary:
  assumes "\<forall>n \<in> set (fast_nodes (swarm s)). 1 \<le> latency n"
  shows "best_node (update_best_node s)
           = (if 0 < connections (primary (swarm s)) then
                (if fits_float (connections (primary (swarm s)))
                      \<and> fits_float (mempool_size (primary (swarm s)))
                 then Some (url (primary (swarm s))) else best_node s)
              else None)
         \<and> ((0 < connections (primary (swarm s)) \<longrightarrow>
               fits_float (connections (primary (swarm s)))
                 \<and> fits_float (mempool_size (primary (swarm s))))
             \<longrightarrow> rpc_url (update_best_node s) None = url (primary (swarm s)))"
proof -
  let ?p = "primary (swarm s)"
  have sel: "select_best (swarm s) = score_primary ?p"
    using score_fast_nodes_none_admitted [OF assms]
    by (cases "score_primary ?p") (simp_all add: select_best_def)
  show ?thesis
  proof (cases "0 < connections ?p")
    case False
    then have "update_best_node s = s\<lparr>best_node := None\<rparr>"
      by (simp add: update_best_node_def sel score_primary_def)
    with False show ?thesis by (simp add: rpc_url_def)
  next
    case True
    show ?thesis
    proof (cases "fits_float (connections ?p) \<and> fits_float (mempool_size ?p)")
      case True
      with \<open>0 < connections ?p\<close> have "update_best_node s = s\<lparr>best_node := Some (url ?p)\<rparr>"
        by (simp add: update_best_node_def sel score_primary_def)
      with True \<open>0 < connections ?p\<close> show ?thesis by (simp add: rpc_url_def)
    next
      case False
      with \<open>0 < connections ?p\<close> have "update_best_node s = s"
        by (auto simp: update_best_node_def sel score_primary_def)
      with False \<open>0 < connections ?p\<close> show ?thesis by auto
    qed
  qed
qed

theorem fallback_to_primary_witness:
  "1 \<le> latency scenario_A
   \<and> best_node (update_best_node (scenario\<lparr>swarm := (swarm scenario)\<lparr>fast_nodes := [scenario_A]\<rparr>\<rparr>))
       = Some ''http://primary:8332''
   \<and> best_node (update_best_node unhealthy_primary) = None
   \<and> rpc_url (update_best_node unhealthy_primary) None = ''http://primary:8332''"
  using fallback_to_primary [of "scenario\<lparr>swarm := (swarm scenario)\<lparr>fast_nodes := [scenario_A]\<rparr>\<rparr>"]
    fallback_to_primary [of unhealthy_primary]
  by (simp add: scenario_def scenario_A_def scenario_primary_def unhealthy_primary_def
      fits_float_small)



section \<open>Properties of the RPC fallback\<close>

text \<open>With a primary that has an address, every call returns or raises.\<close>

lemma btc_rpc_returns:
  assumes "url (primary (swarm s)) \<noteq> []"
  shows "\<exists>r. btc_rpc post s k sent node_url = Some r"
proof -
  let ?p = "url (primary (swarm s))"
  have retry: "rpc_url s (Some ?p) = ?p"
    using assms by (simp add: rpc_url_def)
  have second: "btc_rpc post s (Suc k) sent' (Some ?p) = Some (post (Suc k) ?p, sent' @ [?p])"
    for sent'
    by (subst btc_rpc.simps) (cases "post (Suc k) ?p"; simp add: retry Let_def)
  show ?thesis
    by (subst btc_rpc.simps) (cases "post k (rpc_url s node_url)"; simp add: second Let_def)
qed

text \<open>
  With a primary that has an address (a non-empty URL), the fallback is what its comment
  says: a call that resolves to another URL and whose request fails posts exactly once
  more, to the primary, and returns or raises whatever that second request returns or
  raises; a call that resolves to the primary and fails raises at once.
\<close>

lemma btc_rpc_single_fallback:
  assumes "url (primary (swarm s)) \<noteq> []"
    and "post k (rpc_url s node_url) = Inl e"
  shows "btc_rpc post s k [] node_url
           = (if rpc_url s node_url \<noteq> url (primary (swarm s))
              then Some (post (Suc k) (url (primary (swarm s))),
                         [rpc_url s node_url, url (primary (swarm s))])
              else Some (Inl e, [url (primary (swarm s))]))"
proof -
  let ?p = "url (primary (swarm s))"
  have retry: "rpc_url s (Some ?p) = ?p"
    using assms(1) by (simp add: rpc_url_def)
  have second: "btc_rpc post s (Suc k) sent (Some ?p) = Some (post (Suc k) ?p, sent @ [?p])"
    for sent
    by (subst btc_rpc.simps) (cases "post (Suc k) ?p"; simp add: retry Let_def)
  show ?thesis
    by (subst btc_rpc.simps) (simp add: assms(2) second Let_def)
qed

lemma btc_rpc_on_scenario:
  "btc_rpc always_failing scenario 0 [] (Some ''http://b:8332'')
     = Some (Inl ''timeout http://primary:8332'', [''http://b:8332'', ''http://primary:8332''])
   \<and> btc_rpc always_failing scenario 0 [] None
     = Some (Inl ''timeout http://primary:8332'', [''http://primary:8332''])"
  using btc_rpc_single_fallback [of scenario always_failing 0 "Some ''http://b:8332''"]
    btc_rpc_single_fallback [of scenario always_failing 0 None]
  by (simp add: rpc_url_def scenario_def scenario_primary_def always_failing_def)

text \<open>
  Claim C3 on the code, where the primary's URL is the empty string. The health check
  selects the fast node B. A call without explicit target goes to B and times out; the
  fallback passes the primary's URL, which is falsy, so the \<^verbatim>\<open>or\<close> chain yields B again;
  that request times out too and the fallback is taken a second time. Three requests are
  sent to B and none to the primary, where the claim has exactly one retry, against the
  primary.
\<close>

theorem btc_rpc_retries_best_node:
  "best_node (update_best_node empty_primary) = Some ''http://b:8332''
   \<and> btc_rpc fails_twice (update_best_node empty_primary) 0 [] None
       = Some (Inr ''ok'', [''http://b:8332'', ''http://b:8332'', ''http://b:8332''])"
proof -
  let ?s = "empty_primary\<lparr>best_node := Some ''http://b:8332''\<rparr>"
  have upd: "update_best_node empty_primary = ?s"
    by (simp add: update_best_node_def select_best_def score_primary_def empty_primary_def
        scenario_B_def fits_float_small)
  have target: "rpc_url ?s node_url = ''http://b:8332''"
    if "node_url = None \<or> node_url = Some []" for node_url
    using that by (auto simp: rpc_url_def)
  have p: "url (primary (swarm empty_primary)) = []"
    by (simp add: empty_primary_def)
  have third: "btc_rpc fails_twice ?s (Suc (Suc 0)) sent (Some [])
      = Some (Inr ''ok'', sent @ [''http://b:8332''])" for sent
    by (subst btc_rpc.simps) (simp add: target fails_twice_def Let_def)
  have second: "btc_rpc fails_twice ?s (Suc 0) sent (Some [])
      = Some (Inr ''ok'', sent @ [''http://b:8332'', ''http://b:8332''])" for sent
    using third [of "sent @ [''http://b:8332'']"]
    by (subst btc_rpc.simps) (simp add: target fails_twice_def p Let_def)
  have first: "btc_rpc fails_twice ?s 0 [] None
      = Some (Inr ''ok'', [''http://b:8332'', ''http://b:8332'', ''http://b:8332''])"
    using second [of "[''http://b:8332'']"]
    by (subst btc_rpc.simps) (simp add: target fails_twice_def p Let_def)
  show ?thesis
    unfolding upd using first by simp
qed


section \<open>Properties of the metrics flush\<close>

lemma flush_keeps_totals:
  "opportunities_found (flushed (update_performance_metrics now hset m)) = opportunities_found m
   \<and> total_profit (flushed (update_performance_metrics now hset m)) = total_profit m
   \<and> opportunity_types (flushed (update_performance_metrics now hset m)) = opportunity_types m"
  by (simp add: update_performance_metrics_def Let_def split: option.split)

lemma flush_empty_is_noop:
  "analysis_latency m = [] \<Longrightarrow>
     update_performance_metrics now hset m = \<lparr>flushed = m, stored = None, flush_error = None\<rparr>"
  by (simp add: update_performance_metrics_def)

lemma flush_without_error:
  "flush_error (update_performance_metrics now hset m) = None \<Longrightarrow>
     analysis_latency (flushed (update_performance_metrics now hset m)) = []
     \<and> (analysis_latency m \<noteq> [] \<longrightarrow>
          success_rate (flushed (update_performance_metrics now hset m)) = [])
     \<and> (analysis_latency m = [] \<longrightarrow>
          success_rate (flushed (update_performance_metrics now hset m)) = success_rate m)"
  by (auto simp: update_performance_metrics_def Let_def split: option.splits if_splits)

text \<open>
  Claim C6 as stated fails when the first flush raises: the Redis write comes before the
  reset, in the same \<^verbatim>\<open>try\<close>, so with Redis down the sample buffers are still full after
  the second flush.
\<close>

theorem flush_twice_counterexample:
  "analysis_latency
     (flushed (update_performance_metrics 60 redis_down
        (flushed (update_performance_metrics 30 redis_down one_sample)))) = [1 / 10]
   \<and> success_rate
     (flushed (update_performance_metrics 60 redis_down
        (flushed (update_performance_metrics 30 redis_down one_sample)))) = [1]"
  by (simp add: update_performance_metrics_def one_sample_def init_metrics_def redis_down_def)

text \<open>
  Claim C6, amended. Every flush leaves \<^verbatim>\<open>opportunities_found\<close>, \<^verbatim>\<open>total_profit\<close> and the
  per-category statistics as they were, whether or not it raises. If the first flush logs
  no exception, and the success buffer is empty whenever the latency buffer is (the two
  are appended to together), then a second flush that follows with no activity in between
  finds both buffers empty, stores nothing, logs nothing and changes nothing: the buffers
  are empty and the totals are those before the first flush.
\<close>

theorem flush_twice:
  "(opportunities_found (flushed (update_performance_metrics now1 hset1 m))
      = opportunities_found m
    \<and> total_profit (flushed (update_performance_metrics now1 hset1 m)) = total_profit m)
   \<and> (flush_error (update_performance_metrics now1 hset1 m) = None
       \<and> (analysis_latency m = [] \<longrightarrow> success_rate m = [])
      \<longrightarrow> update_performance_metrics now2 hset2
            (flushed (update_performance_metrics now1 hset1 m))
           = \<lparr>flushed = flushed (update_performance_metrics now1 hset1 m),
              stored = None, flush_error = None\<rparr>
          \<and> analysis_latency (flushed (update_performance_metrics now1 hset1 m)) = []
          \<and> success_rate (flushed (update_performance_metrics now1 hset1 m)) = [])"
proof -
  let ?r1 = "update_performance_metrics now1 hset1 m"
  have totals: "opportunities_found (flushed ?r1) = opportunities_found m
      \<and> total_profit (flushed ?r1) = total_profit m"
    by (simp add: flush_keeps_totals)
  have second: "update_performance_metrics now2 hset2 (flushed ?r1)
        = \<lparr>flushed = flushed ?r1, stored = None, flush_error = None\<rparr>
      \<and> analysis_latency (flushed ?r1) = [] \<and> success_rate (flushed ?r1) = []"
    if ok: "flush_error ?r1 = None" and bufs: "analysis_latency m = [] \<longrightarrow> success_rate m = []"
  proof -
    from flush_without_error [OF ok]
    have lat: "analysis_latency (flushed ?r1) = []"
      and suc: "success_rate (flushed ?r1) = []"
      using bufs by (cases "analysis_latency m = []"; simp)+
    from flush_empty_is_noop [OF lat] lat suc show ?thesis by simp
  qed
  from totals second show ?thesis by blast
qed

theorem flush_twice_witness:
  "flush_error (update_performance_metrics 30 redis_up one_sample) = None
   \<and> stored (update_performance_metrics 30 redis_up one_sample)
       = Some \<lparr>pub_opportunities_found = 0, pub_total_profit = 0, avg_latency = 1 / 10,
               pub_success_rate = 1, opportunities_per_hour = 0, last_update = 30\<rparr>
   \<and> update_performance_metrics 60 redis_up
        (flushed (update_performance_metrics 30 redis_up one_sample))
       = \<lparr>flushed = init_metrics 0, stored = None, flush_error = None\<rparr>"
proof -
  have first: "update_performance_metrics 30 redis_up one_sample
      = \<lparr>flushed = init_metrics 0,
         stored = Some \<lparr>pub_opportunities_found = 0, pub_total_profit = 0,
                        avg_latency = 1 / 10, pub_success_rate = 1,
                        opportunities_per_hour = 0, last_update = 30\<rparr>,
         flush_error = None\<rparr>"
    by (simp add: update_performance_metrics_def one_sample_def init_metrics_def redis_up_def)
  with flush_twice [of 30 redis_up one_sample 60 redis_up] show ?thesis
    by (simp add: one_sample_def)
qed

section \<open>Properties of the worker and of the totals\<close>

























text \<open>The definitions a concrete run unfolds.\<close>

lemmas run_defs = execute_opportunity_def fresh_worker_def init_metrics_def categories_def
  item1_def item2_def dispatch_def flaky_def exact_add_def Let_def




text \<open>
  A queue timeout ends the worker: the item behind it is never taken.
\<close>

lemma worker_ends_at_timeout:
  "tasks_done (process_opportunity_queue exact_add flaky
       [Got item1 (1 / 100), Empty, Got item2 (1 / 50)] fresh_worker) = 1
   \<and> ended (process_opportunity_queue exact_add flaky
       [Got item1 (1 / 100), Empty, Got item2 (1 / 50)] fresh_worker)
       = Some (NameError ''Empty'')"
  by (simp add: run_defs)













section \<open>Properties of the monitoring loop\<close>

text \<open>As long as every push to Redis succeeds, no error of an iteration ends the loop.\<close>

lemma loop_survives:
  "\<forall>t \<in> set ticks. snd t = None \<Longrightarrow> \<exists>st'. start_monitoring ticks st = Running st'"
proof (induction ticks arbitrary: st)
  case Nil
  show ?case by simp
next
  case (Cons t ticks)
  obtain body rpush where t: "t = (body, rpush)" by (cases t)
  with Cons.prems have r: "rpush = None" and rest: "\<forall>t \<in> set ticks. snd t = None" by simp_all
  show ?case
    using Cons.IH [OF rest] by (cases body) (simp_all add: t r)
qed

text \<open>
  Claim C9 on the code: an iteration raises while Redis is unreachable (as when the
  \<^verbatim>\<open>except\<close> clause of \<^verbatim>\<open>eth_monitor\<close> could not push its own error). The loop's \<^verbatim>\<open>except\<close>
  clause logs the error, its \<^verbatim>\<open>rpush\<close> raises in turn, and the loop is left with that
  exception: the third iteration never runs and the pause of 0.1 s is never taken.
\<close>

theorem loop_dies_when_report_fails:
  "start_monitoring
     [(Completed, None),
      (Raised (RedisError ''connection refused''), Some (RedisError ''connection refused'')),
      (Completed, None)] idle_loop
   = Terminated (RedisError ''connection refused'')
       \<lparr>errors_logged = [RedisError ''connection refused''], errors_pushed = [],
        slept = [1 / 20]\<rparr>"
  by (simp add: idle_loop_def)

section \<open>Properties of the alert cooldown\<close>

lemma should_alert_true:
  "fst (should_alert t ty m) \<Longrightarrow>
     snd (should_alert t ty m) = m(ty \<mapsto> t)
     \<and> t - (case m ty of None \<Rightarrow> 0 | Some l \<Rightarrow> l) > alert_cooldown"
  by (auto simp: should_alert_def Let_def split: option.splits if_splits)

lemma should_alert_other:
  "ty' \<noteq> ty \<Longrightarrow> snd (should_alert t ty' m) ty = m ty"
  by (auto simp: should_alert_def Let_def split: option.splits)

lemma should_alert_false:
  "\<not> fst (should_alert t ty m) \<Longrightarrow> m ty = Some l \<Longrightarrow> snd (should_alert t ty m) ty = Some l"
  by (auto simp: should_alert_def Let_def split: option.splits if_splits)

lemma later_alerts:
  assumes "m ty = Some t0"
    and "j < length calls"
    and "snd (calls ! j) = ty"
    and "run_alerts calls m ! j"
  shows "fst (calls ! j) - t0 > alert_cooldown"
  using assms
proof (induction calls arbitrary: m t0 j)
  case Nil
  then show ?case by simp
next
  case (Cons c calls)
  obtain t ty' where c: "c = (t, ty')" by (cases c)
  obtain b m' where sa: "should_alert t ty' m = (b, m')" by (cases "should_alert t ty' m")
  have run: "run_alerts (c # calls) m = b # run_alerts calls m'"
    by (simp add: c sa)
  have pos: "0 < alert_cooldown" by (simp add: alert_cooldown_def)
  show ?case
  proof (cases j)
    case 0
    with Cons.prems run c have "ty' = ty" and b by simp_all
    with should_alert_true [of t ty m] sa Cons.prems(1) 0 c show ?thesis by simp
  next
    case (Suc i)
    with Cons.prems run have i: "i < length calls" "snd (calls ! i) = ty" "run_alerts calls m' ! i"
      by simp_all
    have "\<exists>t1. m' ty = Some t1 \<and> t0 \<le> t1"
    proof (cases "ty' = ty")
      case False
      with should_alert_other [of ty' ty t m] sa Cons.prems(1) show ?thesis by simp
    next
      case True
      show ?thesis
      proof (cases b)
        case True
        with should_alert_true [of t ty m] sa \<open>ty' = ty\<close> Cons.prems(1) pos
        show ?thesis by simp
      next
        case False
        with should_alert_false [of t ty m t0] sa \<open>ty' = ty\<close> Cons.prems(1)
        show ?thesis by simp
      qed
    qed
    then obtain t1 where t1: "m' ty = Some t1" "t0 \<le> t1" by blast
    from Cons.IH [OF t1(1) i] have "fst (calls ! i) - t1 > alert_cooldown" .
    with t1(2) Suc show ?thesis by simp
  qed
qed

text \<open>
  Claim C10. Among the calls of \<^verbatim>\<open>should_alert\<close> on one monitor, whatever the clock
  readings and the other calls in between, two calls for the same issue type that both
  answer \<^verbatim>\<open>True\<close> are more than \<^verbatim>\<open>alert_cooldown\<close> (300 s) apart; and every call that
  answers \<^verbatim>\<open>True\<close> records its clock reading for its issue type.
\<close>

theorem should_alert_cooldown:
  assumes "i < j"
    and "j < length calls"
    and "snd (calls ! i) = snd (calls ! j)"
    and "run_alerts calls m ! i"
    and "run_alerts calls m ! j"
  shows "fst (calls ! j) - fst (calls ! i) > alert_cooldown
         \<and> (\<forall>t ty m0. fst (should_alert t ty m0) \<longrightarrow> snd (should_alert t ty m0) ty = Some t)"
proof -
  have "fst (calls ! j) - fst (calls ! i) > alert_cooldown"
    using assms
  proof (induction calls arbitrary: m i j)
    case Nil
    then show ?case by simp
  next
    case (Cons c calls)
    obtain t ty where c: "c = (t, ty)" by (cases c)
    obtain b m' where sa: "should_alert t ty m = (b, m')" by (cases "should_alert t ty m")
    have run: "run_alerts (c # calls) m = b # run_alerts calls m'"
      by (simp add: c sa)
    from Cons.prems(1) obtain j' where j: "j = Suc j'" by (cases j) simp_all
    show ?case
    proof (cases i)
      case 0
      with Cons.prems run have b by simp
      with should_alert_true [of t ty m] sa have rec: "m' ty = Some t" by simp
      from Cons.prems 0 j c run
      have "j' < length calls" "snd (calls ! j') = ty" "run_alerts calls m' ! j'" by simp_all
      from later_alerts [OF rec this] 0 j c show ?thesis by simp
    next
      case (Suc i')
      with Cons.prems j run
      have "i' < j'" "j' < length calls" "snd (calls ! i') = snd (calls ! j')"
        "run_alerts calls m' ! i'" "run_alerts calls m' ! j'" by simp_all
      from Cons.IH [OF this] Suc j show ?thesis by simp
    qed
  qed
  moreover have "\<forall>t ty m0. fst (should_alert t ty m0) \<longrightarrow> snd (should_alert t ty m0) ty = Some t"
    using should_alert_true by simp
  ultimately show ?thesis by simp
qed

theorem should_alert_cooldown_witness:
  "run_alerts alert_calls Map.empty = [True, True, False, True]
   \<and> fst (alert_calls ! 3) - fst (alert_calls ! 0) = 400
   \<and> alert_cooldown < 400"
  using should_alert_cooldown [of 0 3 alert_calls Map.empty]
  by (simp add: alert_calls_def should_alert_def alert_cooldown_def)

end
